theory Spec2Isabelle
  imports Main
begin

section \<open>Types of the host language\<close>

text \<open>
  The repository consists of type declarations: every operation is a function signature
  whose behaviour is what the host type checker accepts at a call and which type it gives
  the result. The embedding therefore computes on types. \<open>ty\<close> holds the type
  expressions that occur in the declarations of \<^verbatim>\<open>invoke.d.ts\<close> and
  \<^verbatim>\<open>built-ins/primitives.d.ts\<close>: the primitives, \<^verbatim>\<open>unknown\<close>,
  \<^verbatim>\<open>never\<close>, \<^verbatim>\<open>any\<close>, arrays \<^verbatim>\<open>T[]\<close>, unions and function types.
  A function type \<open>TFun bounds ps r\<close> has parameter types \<open>ps\<close> and result type
  \<open>r\<close>; when it is generic, \<open>bounds\<close> lists the declared bounds of its type
  parameters (\<^verbatim>\<open>unknown\<close> for an unconstrained one) and \<open>TVar i\<close> stands for
  the \<open>i\<close>-th of them.
\<close>

datatype ty =
    TNumber
  | TString
  | TBoolean
  | TVoid
  | TUnknown
  | TNever
  | TAny
  | TArray ty
  | TUnion ty ty
  | TFun (tparams: "ty list") (params: "ty list") (ret: ty)
  | TVar nat

text \<open>
  \<open>assignable s t\<close>: a value of type \<open>s\<close> may be used where \<open>t\<close> is expected.
  Everything is assignable to \<^verbatim>\<open>unknown\<close> and to \<^verbatim>\<open>any\<close>,
  \<^verbatim>\<open>never\<close> is assignable to everything, \<^verbatim>\<open>any\<close> to everything but
  \<^verbatim>\<open>never\<close>, a union source needs both members accepted, a union target needs one member
  that accepts, arrays are compared by their elements. A function type is assignable to
  another when it declares no more parameters, each parameter of the target is assignable
  to the parameter of the source at its position, and the result is assignable to the
  target's result (any result is, when the target returns \<^verbatim>\<open>void\<close>). This is what
  the type checker accepts for function types whatever its options; with the option for
  strict function types off it also accepts parameters that are related the other way
  round, which is not modelled. A generic function type and a type parameter are related
  to themselves only.
\<close>

function (sequential) assignable :: "ty \<Rightarrow> ty \<Rightarrow> bool"
  and params_fit :: "ty list \<Rightarrow> ty list \<Rightarrow> bool" where
  "assignable s TUnknown = True"
| "assignable s TAny = True"
| "assignable TNever t = True"
| "assignable TAny TNever = False"
| "assignable TAny t = True"
| "assignable (TUnion a b) t = (assignable a t \<and> assignable b t)"
| "assignable s (TUnion a b) = (assignable s a \<or> assignable s b)"
| "assignable (TArray s) (TArray t) = assignable s t"
| "assignable (TFun [] ps r) (TFun [] qs s) =
     (params_fit ps qs \<and> (s = TVoid \<or> assignable r s))"
| "assignable s t = (s = t)"
| "params_fit [] qs = True"
| "params_fit (p # ps) [] = False"
| "params_fit (p # ps) (q # qs) = (assignable q p \<and> params_fit ps qs)"
  by pat_completeness auto

termination
  by (relation "measure (\<lambda>x. case x of Inl (s, t) \<Rightarrow> size s + size t
                                  | Inr (ps, qs) \<Rightarrow> size_list size ps + size_list size qs)")
    auto

text \<open>
  The types built from the primitives, \<^verbatim>\<open>unknown\<close> and \<^verbatim>\<open>never\<close> by arrays
  and unions: on these, what is assignable to what does not depend on any option of the
  type checker.
\<close>

fun simple :: "ty \<Rightarrow> bool" where
  "simple (TArray t) = simple t"
| "simple (TUnion a b) = (simple a \<and> simple b)"
| "simple TAny = False"
| "simple (TFun bs ps r) = False"
| "simple (TVar i) = False"
| "simple t = True"

fun is_function :: "ty \<Rightarrow> bool" where
  "is_function (TFun bs ps r) = True"
| "is_function t = False"

section \<open>Completion kinds and failures\<close>

text \<open>
  A block of a block set: its name, the types of the parameters it is called with, and
  whether the key is optional (\<^verbatim>\<open>inverse?(): BlockResult\<close>). Every block of the
  sources is declared with method syntax (\<^verbatim>\<open>default(item: T, index: number): BlockResult\<close>).
\<close>

type_synonym block_entry = "string \<times> ty list \<times> bool"
type_synonym block_set = "block_entry list"

text \<open>
  Modelled from the spec: the module \<^verbatim>\<open>./signature\<close> that declares
  \<^verbatim>\<open>ReturnsValue\<close>, \<^verbatim>\<open>AcceptsBlocks\<close> and \<^verbatim>\<open>CreatesModifier\<close> is
  not among the sources. The spec describes them as a closed, tag-discriminated variant set
  of three mutually exclusive completion kinds.
\<close>

datatype 'v completion =
    ReturnsValue 'v
  | AcceptsBlocks block_set
  | CreatesModifier

text \<open>
  A template signature, \<^verbatim>\<open>(args: NamedArgs, ...positional: PositionalArgs) => Completion\<close>:
  the bounds of its type parameters, its named arguments (name, type, whether optional),
  its positional arguments and its completion kind.
\<close>

type_synonym args_shape = "(string \<times> ty \<times> bool) list"
type_synonym args_given = "(string \<times> ty) list"

record 'v signature =
  typeParameters :: "ty list"
  namedArgs :: args_shape
  positionalArgs :: "ty list"
  completionKind :: "'v completion"

text \<open>
  The host type checker reports a failed call as a type error at the call site; the names
  of the failures are the spec's.
\<close>

datatype error =
    NoSignature
  | MissingArgument
  | UnknownArgument
  | ArityMismatch
  | ArgumentTypeMismatch
  | NotInvokableInline
  | NotAModifier
  | NotBlockAccepting
  | BlockNameMismatch
  | BlockParameterMismatch

section \<open>Yields and block callbacks\<close>

text \<open>
  Modelled from the spec: the module \<^verbatim>\<open>./blocks\<close> (\<^verbatim>\<open>BlockYield\<close>,
  \<^verbatim>\<open>toBlock\<close>, \<^verbatim>\<open>YieldsFromBlock\<close>) is not among the sources. A yield
  event pairs the target block name with the types of the yielded values;
  \<^verbatim>\<open>toBlock(name, ...values)\<close> marks one yield site. The use in the type test
  (\<^verbatim>\<open>toBlock('body', num, str)\<close> has type \<^verbatim>\<open>BlockYield<'body', [number, string]>\<close>)
  agrees.
\<close>

type_synonym block_yield = "string \<times> ty list"

definition toBlock :: "string \<Rightarrow> ty list \<Rightarrow> block_yield" where
  "toBlock name vals = (name, vals)"

text \<open>
  A block callback is a generator method of the blocks hash. Each of its parameters is
  either annotated with a type (\<open>Some t\<close>) or left to be typed from the block it
  implements (\<open>None\<close>, as in \<^verbatim>\<open>*default(str, num) { ... }\<close>). Its body is a
  sequence of \<^verbatim>\<open>yield\<close> statements, whose operands are built from the parameters:
  the body maps the types of the parameters to the list of the types it yields, a
  \<^verbatim>\<open>yield toBlock(...)\<close> giving one yield event and a
  \<^verbatim>\<open>yield invokeBlock(...)\<close> giving all those of the nested call.
\<close>

datatype callback =
  Callback (cparams: "ty option list") (cbody: "ty list \<Rightarrow> block_yield list")

text \<open>
  The types of a callback's parameters: the annotation where there is one, otherwise the
  type of the block parameter at the same position; a parameter with neither is
  implicitly \<^verbatim>\<open>any\<close>.
\<close>

fun param_types :: "ty option list \<Rightarrow> ty list \<Rightarrow> ty list" where
  "param_types [] es = []"
| "param_types (Some t # ps) es = t # param_types ps (tl es)"
| "param_types (None # ps) [] = TAny # param_types ps []"
| "param_types (None # ps) (e # es) = e # param_types ps es"

text \<open>
  Whether a callback's parameter list is accepted for a block with parameter types
  \<open>es\<close>. A callback may declare fewer parameters than the block passes, never more.
  The block is a method of the block set, and the host language compares the parameters of
  methods in both directions: an annotated parameter is accepted when the block's type is
  assignable to it, or it to the block's type. A parameter of function type is a callback,
  which is compared in the first direction only.
\<close>

definition related :: "ty \<Rightarrow> ty \<Rightarrow> bool" where
  "related e t = (assignable e t \<or> (\<not> is_function e \<and> \<not> is_function t \<and> assignable t e))"

fun params_compatible :: "ty option list \<Rightarrow> ty list \<Rightarrow> bool" where
  "params_compatible [] es = True"
| "params_compatible (p # ps) [] = False"
| "params_compatible (None # ps) (e # es) = params_compatible ps es"
| "params_compatible (Some t # ps) (e # es) = (related e t \<and> params_compatible ps es)"

definition block_params :: "block_set \<Rightarrow> string \<Rightarrow> ty list" where
  "block_params bs n = (case map_of bs n of None \<Rightarrow> [] | Some (ps, opt) \<Rightarrow> ps)"

definition callback_yields :: "block_set \<Rightarrow> string \<times> callback \<Rightarrow> block_yield list" where
  "callback_yields bs b = cbody (snd b) (param_types (cparams (snd b)) (block_params bs (fst b)))"

section \<open>The invocation dispatcher (\<^verbatim>\<open>invoke.d.ts\<close>)\<close>

text \<open>\<^verbatim>\<open>export type Invokable<T extends AnySignature> = T;\<close>\<close>

definition Invokable :: "'sig \<Rightarrow> 'sig" where
  "Invokable T = T"

text \<open>
  \<^verbatim>\<open>invokeInline<T extends ReturnsValue<any>>(value: T): ReturnType<T>[typeof Return]\<close>:
  the bound on \<open>T\<close> rejects every other completion kind; the result is the value type.
\<close>

definition invokeInline :: "'v completion \<Rightarrow> error + 'v" where
  "invokeInline v = (case v of ReturnsValue t \<Rightarrow> Inr t | _ \<Rightarrow> Inl NotInvokableInline)"

text \<open>\<^verbatim>\<open>invokeModifier<T extends CreatesModifier>(value: T): void\<close>\<close>

definition invokeModifier :: "'v completion \<Rightarrow> error + unit" where
  "invokeModifier v = (case v of CreatesModifier \<Rightarrow> Inr () | _ \<Rightarrow> Inl NotAModifier)"

text \<open>
  \<^verbatim>\<open>keyof\<close> of a block set, and its keys that are not optional.
\<close>

definition keyof :: "block_set \<Rightarrow> string list" where
  "keyof bs = map fst bs"

definition mandatory_keys :: "block_set \<Rightarrow> string list" where
  "mandatory_keys bs = map fst (filter (\<lambda>e. \<not> snd (snd e)) bs)"

text \<open>
  \<^verbatim>\<open>invokeBlock<T extends AcceptsBlocks<any>, Impls extends Parameters<T>[0]>
    (value: T, blocks: Impls, ...names: Array<keyof Parameters<T>[0]>)
    : YieldsFromBlock<Impls[keyof Impls]>\<close>

  The arguments are judged in their order, and the first failure is the one reported:
  \<^item> the bound on \<open>T\<close> rejects a value that is not block accepting;
  \<^item> \<open>Impls\<close> must be assignable to the block set: every key that is not optional is
    a key of \<open>blocks\<close> (a missing key is found before the types of the present ones are
    compared), and each callback under a key of the block set is accepted for that block.
    \<open>Impls\<close> is inferred from \<open>blocks\<close>, so a key of \<open>blocks\<close> that the block
    set does not have is not an error (the comment in the source says so);
  \<^item> every element of the rest parameter \<open>names\<close> is a key of the block set;
  \<^item> the result collects what every callback of \<open>blocks\<close> yields.
\<close>

definition callbacks_accepted :: "block_set \<Rightarrow> (string \<times> callback) list \<Rightarrow> bool" where
  "callbacks_accepted bs blocks =
     list_all (\<lambda>b. fst b \<notin> set (keyof bs)
                  \<or> params_compatible (cparams (snd b)) (block_params bs (fst b))) blocks"

definition invokeBlock ::
  "'v completion \<Rightarrow> (string \<times> callback) list \<Rightarrow> string list \<Rightarrow> error + block_yield list" where
  "invokeBlock v blocks names =
     (case v of
        AcceptsBlocks bs \<Rightarrow>
          if \<not> list_all (\<lambda>n. n \<in> set (map fst blocks)) (mandatory_keys bs)
            then Inl BlockNameMismatch
          else if \<not> callbacks_accepted bs blocks
            then Inl BlockParameterMismatch
          else if \<not> list_all (\<lambda>n. n \<in> set (keyof bs)) names
            then Inl BlockNameMismatch
          else Inr (concat (map (callback_yields bs) blocks))
      | _ \<Rightarrow> Inl NotBlockAccepting)"

text \<open>
  The operand of a \<^verbatim>\<open>yield invokeBlock(...)\<close> statement inside a body: the yields of
  the nested call (a nested call that is a type error yields nothing).
\<close>

definition yield_from :: "error + block_yield list \<Rightarrow> block_yield list" where
  "yield_from res = (case res of Inl e \<Rightarrow> [] | Inr ys \<Rightarrow> ys)"

text \<open>Callbacks used in the examples: a body without yields, and a set of such callbacks.\<close>

definition no_yields :: "ty list \<Rightarrow> block_yield list" where
  "no_yields ps = []"

definition silent_blocks :: "block_set \<Rightarrow> (string \<times> callback) list" where
  "silent_blocks bs = map (\<lambda>e. (fst e, Callback [] no_yields)) bs"

section \<open>Binding the arguments of a signature\<close>

text \<open>
  The named arguments of a call are an object literal checked against the declared shape:
  a key the shape does not have is an excess property, a key that is not optional must be
  given, and each given value must be assignable to the declared type. The empty shape
  \<^verbatim>\<open>{}\<close> is not checked for excess properties: it accepts any named arguments.
\<close>

definition required_keys :: "args_shape \<Rightarrow> string list" where
  "required_keys shape = map fst (filter (\<lambda>e. \<not> snd (snd e)) shape)"

definition arg_type :: "args_shape \<Rightarrow> string \<Rightarrow> ty" where
  "arg_type shape n = (case map_of shape n of None \<Rightarrow> TUnknown | Some (t, opt) \<Rightarrow> t)"

definition check_args :: "args_shape \<Rightarrow> args_given \<Rightarrow> error option" where
  "check_args shape given =
     (if shape \<noteq> [] \<and> \<not> list_all (\<lambda>n. n \<in> set (map fst shape)) (map fst given)
        then Some UnknownArgument
      else if \<not> list_all (\<lambda>n. n \<in> set (map fst given)) (required_keys shape)
        then Some MissingArgument
      else if \<not> list_all (\<lambda>g. assignable (snd g) (arg_type shape (fst g))) given
        then Some ArgumentTypeMismatch
      else None)"




fun subst :: "(nat \<Rightarrow> ty) \<Rightarrow> ty \<Rightarrow> ty" where
  "subst \<theta> (TVar i) = \<theta> i"
| "subst \<theta> (TArray t) = TArray (subst \<theta> t)"
| "subst \<theta> (TUnion a b) = TUnion (subst \<theta> a) (subst \<theta> b)"
| "subst \<theta> (TFun bs ps r) = TFun bs (map (subst \<theta>) ps) (subst \<theta> r)"
| "subst \<theta> t = t"


text \<open>
  A type that still has type parameters when the utility types of the host language
  (\<^verbatim>\<open>ReturnType\<close>, \<^verbatim>\<open>Parameters\<close>, \<^verbatim>\<open>infer\<close>) look into it loses them: each
  type parameter degrades to its declared bound, \<^verbatim>\<open>unknown\<close> when it has none.
  \<open>bounds\<close> lists the bounds of the type parameters in scope.
\<close>

definition bound_of :: "ty list \<Rightarrow> nat \<Rightarrow> ty" where
  "bound_of bounds i = (if i < length bounds then bounds ! i else TUnknown)"

definition erase_ty :: "ty list \<Rightarrow> ty \<Rightarrow> ty" where
  "erase_ty bounds t = subst (bound_of bounds) t"

definition erase_block :: "ty list \<Rightarrow> block_entry \<Rightarrow> block_entry" where
  "erase_block bounds e = (fst e, map (erase_ty bounds) (fst (snd e)), snd (snd e))"


text \<open>A type in which no type parameter occurs.\<close>

fun closed :: "ty \<Rightarrow> bool" where
  "closed (TVar i) = False"
| "closed (TArray t) = closed t"
| "closed (TUnion a b) = (closed a \<and> closed b)"
| "closed (TFun bs ps r) = (list_all closed ps \<and> closed r)"
| "closed t = True"

section \<open>Built-in primitives (\<^verbatim>\<open>built-ins/primitives.d.ts\<close>)\<close>

text \<open>
  Each built-in is a signature, that is a function from the named and the positional
  arguments of a call to the completion the call has, or to the failure of the call. The
  number of arguments is judged first, then the arguments in their order.

  \<^verbatim>\<open>EachHelper = Invokable<<T>(args: { key?: string }, items: T[]) =>
    AcceptsBlocks<{ default(item: T, index: number): BlockResult; inverse?(): BlockResult }>>\<close>

  \<open>T\<close> is the element type of \<open>items\<close>; items of type \<^verbatim>\<open>any\<close> or
  \<^verbatim>\<open>never\<close> fix nothing and leave \<open>T\<close> \<^verbatim>\<open>unknown\<close>.
\<close>

fun element_type :: "ty \<Rightarrow> ty option" where
  "element_type (TArray T) = Some T"
| "element_type TAny = Some TUnknown"
| "element_type TNever = Some TUnknown"
| "element_type t = None"

definition EachHelper :: "args_given \<Rightarrow> ty list \<Rightarrow> error + ty completion" where
  "EachHelper = Invokable (\<lambda>args positional.
     case positional of
       [items] \<Rightarrow>
         (case check_args [(''key'', TString, True)] args of
            Some e \<Rightarrow> Inl e
          | None \<Rightarrow>
              (case element_type items of
                 Some T \<Rightarrow> Inr (AcceptsBlocks [(''default'', [T, TNumber], False),
                                                (''inverse'', [], True)])
               | None \<Rightarrow> Inl ArgumentTypeMismatch))
     | _ \<Rightarrow> Inl ArityMismatch)"

text \<open>
  \<^verbatim>\<open>LetHelper = Invokable<<T extends unknown[]>(args: {}, ...values: T) =>
    AcceptsBlocks<{ default(...values: T): BlockResult }>>\<close>

  Any named arguments and any positional values are accepted.
\<close>

definition LetHelper :: "args_given \<Rightarrow> ty list \<Rightarrow> error + ty completion" where
  "LetHelper = Invokable (\<lambda>args values.
     Inr (AcceptsBlocks [(''default'', values, False)]))"




text \<open>
  \<^verbatim>\<open>ComponentHelper\<close>. The source reads the named arguments, the positional arguments and
  the blocks of the component off its resolved signature (\<^verbatim>\<open>ResolveSignature\<close> is in
  the module \<^verbatim>\<open>../resolution\<close>, which is not among the sources: a component is given
  here by its resolved signature).

  \<^verbatim>\<open>type ArgsFor<T> = ResolveSignature<T> extends (args: infer Args) => unknown ? Args : {};\<close>
  The pattern has no positional parameter, and a signature with a positional parameter is
  not assignable to it: for such a component the result is the empty shape.

  \<^verbatim>\<open>type PositionalFor<T> = ResolveSignature<T> extends
    (args: never, ...positional: infer Positional) => unknown ? Positional : never[];\<close>

  \<^verbatim>\<open>type BlocksFor<T> = ResolveSignature<T> extends
    (...params: never) => (blocks: infer Blocks) => unknown
      ? Blocks extends Partial<AnyBlocks> ? Blocks : {} : {};\<close>
\<close>

definition ArgsFor :: "ty signature \<Rightarrow> args_shape" where
  "ArgsFor c =
     (if positionalArgs c = []
      then map (\<lambda>e. (fst e, erase_ty (typeParameters c) (fst (snd e)), snd (snd e))) (namedArgs c)
      else [])"

definition PositionalFor :: "ty signature \<Rightarrow> ty list" where
  "PositionalFor c = map (erase_ty (typeParameters c)) (positionalArgs c)"

definition BlocksFor :: "ty signature \<Rightarrow> block_set" where
  "BlocksFor c =
     (case completionKind c of
        AcceptsBlocks bs \<Rightarrow> map (erase_block (typeParameters c)) bs
      | _ \<Rightarrow> [])"

text \<open>The utility types \<^verbatim>\<open>Omit\<close>, \<^verbatim>\<open>Pick\<close> and \<^verbatim>\<open>Partial\<close> of the host language.\<close>

definition Omit :: "args_shape \<Rightarrow> string list \<Rightarrow> args_shape" where
  "Omit shape ks = filter (\<lambda>e. fst e \<notin> set ks) shape"

definition Pick :: "args_shape \<Rightarrow> string list \<Rightarrow> args_shape" where
  "Pick shape ks = filter (\<lambda>e. fst e \<in> set ks) shape"

definition Partial :: "args_shape \<Rightarrow> args_shape" where
  "Partial shape = map (\<lambda>e. (fst e, fst (snd e), True)) shape"

text \<open>
  \<^verbatim>\<open><Component, GivenArgs extends keyof ArgsFor<Component>>(
      args: { [Arg in GivenArgs]: ArgsFor<Component>[Arg] }, component: Component
    ) => ReturnsValue<Invokable<(
      args: Omit<ArgsFor<Component>, GivenArgs> & Partial<Pick<ArgsFor<Component>, GivenArgs>>,
      ...positional: PositionalFor<Component>
    ) => AcceptsBlocks<BlocksFor<Component>>>>\<close>

  \<open>GivenArgs\<close> is the set of keys of \<open>args\<close>; its bound makes every one of them a
  named argument of the component, and each value has the type the component declares.
\<close>

definition ComponentHelper :: "args_given \<Rightarrow> ty signature \<Rightarrow> error + ty signature completion" where
  "ComponentHelper = Invokable (\<lambda>args c.
     let GivenArgs = map fst args in
     if \<not> list_all (\<lambda>n. n \<in> set (map fst (ArgsFor c))) GivenArgs
       then Inl UnknownArgument
     else if \<not> list_all (\<lambda>g. assignable (snd g) (arg_type (ArgsFor c) (fst g))) args
       then Inl ArgumentTypeMismatch
     else Inr (ReturnsValue (Invokable
       \<lparr> typeParameters = [],
         namedArgs = Omit (ArgsFor c) GivenArgs @ Partial (Pick (ArgsFor c) GivenArgs),
         positionalArgs = PositionalFor c,
         completionKind = AcceptsBlocks (BlocksFor c) \<rparr>)))"

section \<open>Resolution and templates\<close>

text \<open>
  Modelled from the spec: \<^verbatim>\<open>resolve\<close> and \<^verbatim>\<open>resolveOrReturn\<close> belong to the module
  \<^verbatim>\<open>../resolution\<close>, which is not among the sources. An entity of template scope has a
  type and may carry a template signature. \<open>resolve\<close> fails with \<open>NoSignature\<close> on
  an entity that carries none; \<open>resolveOrReturn\<close> never fails: for such an entity it
  synthesizes a signature with no type parameter and no argument that returns a value of
  the entity's type.
\<close>

record entity =
  typeof :: ty
  template_signature :: "ty signature option"

definition resolve :: "entity \<Rightarrow> error + ty signature" where
  "resolve e = (case template_signature e of None \<Rightarrow> Inl NoSignature | Some s \<Rightarrow> Inr s)"

definition resolveOrReturn :: "entity \<Rightarrow> ty signature" where
  "resolveOrReturn e =
     (case template_signature e of
        None \<Rightarrow> \<lparr> typeParameters = [], namedArgs = [], positionalArgs = [],
                  completionKind = ReturnsValue (typeof e) \<rparr>
      | Some s \<Rightarrow> s)"

text \<open>
  Modelled from the spec: \<^verbatim>\<open>template\<close> is not among the sources. It turns the union
  of the yields of a template body into the blocks hash of the template's own signature:
  one block for each block name yielded to, the types yielded to the same position of the
  same block joined in a union. A yield of a body may never run (a block callback may be
  called zero times), so the blocks are optional, as in the overview's
  \<^verbatim>\<open>AcceptsBlocks<{ default?(arg: string): BlockResult }>\<close>.
\<close>

definition union_ty :: "ty \<Rightarrow> ty \<Rightarrow> ty" where
  "union_ty a b = (if a = b then a else TUnion a b)"

fun union_params :: "ty list \<Rightarrow> ty list \<Rightarrow> ty list" where
  "union_params [] bs = bs"
| "union_params as [] = as"
| "union_params (a # as) (b # bs) = union_ty a b # union_params as bs"

fun yielded_params :: "string \<Rightarrow> block_yield list \<Rightarrow> ty list option" where
  "yielded_params n [] = None"
| "yielded_params n (y # ys) =
     (if fst y = n
      then (case yielded_params n ys of None \<Rightarrow> Some (snd y) | Some ps \<Rightarrow> Some (union_params (snd y) ps))
      else yielded_params n ys)"

definition blocks_hash :: "block_yield list \<Rightarrow> block_set" where
  "blocks_hash ys =
     map (\<lambda>n. (n, (case yielded_params n ys of None \<Rightarrow> [] | Some ps \<Rightarrow> ps), True))
       (remdups (map fst ys))"

definition template :: "block_yield list \<Rightarrow> ty completion" where
  "template body = AcceptsBlocks (blocks_hash body)"

text \<open>Callback bodies used in the examples below.\<close>

definition yields_body_num_str :: "ty list \<Rightarrow> block_yield list" where
  "yields_body_num_str ps = [toBlock ''body'' [ps ! 1, ps ! 0]]"

definition yields_out_item :: "ty list \<Rightarrow> block_yield list" where
  "yields_out_item ps = [toBlock ''out'' [ps ! 0]]"

section \<open>Properties of the dispatcher\<close>

lemma concat_no_yields: "concat (map (\<lambda>x. []) xs) = []"
  by (induction xs) simp_all

lemma invokeBlock_silent_blocks:
  "invokeBlock (AcceptsBlocks bs) (silent_blocks bs) (keyof bs) = Inr []"
proof -
  have keys: "map fst (silent_blocks bs) = map fst bs"
    by (simp add: silent_blocks_def comp_def)
  have mandatory: "list_all (\<lambda>n. n \<in> set (map fst (silent_blocks bs))) (mandatory_keys bs)"
    unfolding keys by (force simp: list_all_iff mandatory_keys_def)
  have names: "list_all (\<lambda>n. n \<in> set (keyof bs)) (keyof bs)"
    by (simp add: list_all_iff)
  have params: "callbacks_accepted bs (silent_blocks bs)"
    by (simp add: callbacks_accepted_def list_all_iff silent_blocks_def)
  have yields: "concat (map (callback_yields bs) (silent_blocks bs)) = []"
    by (simp add: callback_yields_def silent_blocks_def no_yields_def comp_def concat_no_yields)
  show ?thesis
    unfolding invokeBlock_def using mandatory names params yields by simp
qed

text \<open>
  C1. The three entry points against the three completion kinds, nine cases. Each entry
  point accepts the completion kind it is declared for: \<open>invokeInline\<close> gives the value
  type of a \<open>ReturnsValue\<close>, \<open>invokeModifier\<close> gives void for a
  \<open>CreatesModifier\<close>, and \<open>invokeBlock\<close> on an \<open>AcceptsBlocks\<close> never fails
  with the kind mismatch and succeeds when every block of the block set is implemented.
  Each of the six other combinations fails with the mismatch error of the entry point used.
\<close>

theorem dispatcher_nine_cases:
  fixes t :: 'v
  defines "blocks_value bs \<equiv> (AcceptsBlocks bs :: 'v completion)"
      and "modifier_value \<equiv> (CreatesModifier :: 'v completion)"
  shows "invokeInline (ReturnsValue t) = Inr t
   \<and> invokeModifier modifier_value = Inr ()
   \<and> invokeBlock (blocks_value bs) blocks names \<noteq> Inl NotBlockAccepting
   \<and> invokeBlock (blocks_value bs) (silent_blocks bs) (keyof bs) = Inr []
   \<and> invokeInline (blocks_value bs) = Inl NotInvokableInline
   \<and> invokeInline modifier_value = Inl NotInvokableInline
   \<and> invokeModifier (ReturnsValue t) = Inl NotAModifier
   \<and> invokeModifier (blocks_value bs) = Inl NotAModifier
   \<and> invokeBlock (ReturnsValue t) blocks names = Inl NotBlockAccepting
   \<and> invokeBlock modifier_value blocks names = Inl NotBlockAccepting"
proof -
  have "invokeBlock (blocks_value bs) blocks names \<noteq> Inl NotBlockAccepting"
    by (simp add: invokeBlock_def blocks_value_def)
  moreover have "invokeBlock (ReturnsValue t) blocks names = Inl NotBlockAccepting"
    and "invokeBlock modifier_value blocks names = Inl NotBlockAccepting"
    by (simp_all add: invokeBlock_def modifier_value_def)
  moreover have "invokeBlock (blocks_value bs) (silent_blocks bs) (keyof bs) = Inr []"
    unfolding blocks_value_def by (rule invokeBlock_silent_blocks)
  ultimately show ?thesis
    by (simp add: invokeInline_def invokeModifier_def blocks_value_def modifier_value_def)
qed

theorem dispatcher_nine_cases_witness:
  "invokeInline (ReturnsValue TString) = Inr TString
   \<and> invokeBlock (AcceptsBlocks [(''default'', [TNumber], False), (''inverse'', [], True)] :: ty completion)
       [(''default'', Callback [] no_yields), (''inverse'', Callback [] no_yields)]
       [''default'', ''inverse''] = Inr []
   \<and> invokeInline (AcceptsBlocks [(''default'', [TNumber], False), (''inverse'', [], True)] :: ty completion)
       = Inl NotInvokableInline
   \<and> invokeBlock (CreatesModifier :: ty completion) [] [] = Inl NotBlockAccepting"
  using dispatcher_nine_cases
    [of TString "[(''default'', [TNumber], False), (''inverse'', [], True)]" "[]" "[]"]
  by (simp add: silent_blocks_def keyof_def)

text \<open>
  C2. When a block-accepting invocation type-checks, its result is exactly the union of
  what the bodies of the supplied callbacks yield; callbacks without yields give the empty
  result; and a callback whose body is a single \<^verbatim>\<open>yield invokeBlock(...)\<close> hands the
  result of that nested call on unchanged.
\<close>

theorem invokeBlock_yields_union:
  fixes v' :: "'w completion"
  assumes "invokeBlock (AcceptsBlocks bs :: 'v completion) blocks names = Inr r"
  shows "set r = (\<Union>b\<in>set blocks. set (callback_yields bs b))
    \<and> ((\<forall>b\<in>set blocks. callback_yields bs b = []) \<longrightarrow> r = [])
    \<and> (\<forall>n ps inner.
          invokeBlock v' blocks' names' = Inr inner
          \<and> blocks = [(n, Callback ps (\<lambda>qs. yield_from (invokeBlock v' blocks' names')))]
          \<longrightarrow> r = inner)"
proof -
  from assms have r: "r = concat (map (callback_yields bs) blocks)"
    by (simp add: invokeBlock_def split: if_splits)
  have union: "set r = (\<Union>b\<in>set blocks. set (callback_yields bs b))"
    by (simp add: r)
  have silent: "(\<forall>b\<in>set blocks. callback_yields bs b = []) \<longrightarrow> r = []"
    by (simp add: r)
  have nested: "r = inner"
    if "invokeBlock v' blocks' names' = Inr inner"
      and "blocks = [(n, Callback ps (\<lambda>qs. yield_from (invokeBlock v' blocks' names')))]"
    for n ps inner
    using that by (simp add: r callback_yields_def yield_from_def)
  show ?thesis
    apply (intro conjI allI impI)
      apply (rule union)
    using silent apply simp
    apply (erule conjE)
    apply (erule (1) nested)
    done
qed

text \<open>
  The overview's nesting: the callback of \<^verbatim>\<open>let\<close> yields the result of an
  \<^verbatim>\<open>each\<close> over the bound array, whose callback yields each item to \<open>default\<close>.
\<close>

theorem invokeBlock_yields_union_witness:
  "invokeBlock (AcceptsBlocks [(''default'', [TString, TNumber], False), (''inverse'', [], True)] :: ty completion)
      [(''default'', Callback [None] (\<lambda>ps. [toBlock ''default'' [ps ! 0]]))] []
     = Inr [(''default'', [TString])]
   \<and> invokeBlock (AcceptsBlocks [(''default'', [TArray TString], False)] :: ty completion)
      [(''default'', Callback [None] (\<lambda>qs. yield_from (invokeBlock
          (AcceptsBlocks [(''default'', [TString, TNumber], False), (''inverse'', [], True)] :: ty completion)
          [(''default'', Callback [None] (\<lambda>ps. [toBlock ''default'' [ps ! 0]]))] [])))] []
     = Inr [(''default'', [TString])]"
proof -
  let ?each = "AcceptsBlocks [(''default'', [TString, TNumber], False), (''inverse'', [], True)] :: ty completion"
  let ?inner = "[(''default'', Callback [None] (\<lambda>ps. [toBlock ''default'' [ps ! 0]]))]"
  let ?outer = "[(''default'', Callback [None] (\<lambda>qs. yield_from (invokeBlock ?each ?inner [])))]"
  have inner: "invokeBlock ?each ?inner [] = Inr [(''default'', [TString])]"
    by (simp add: invokeBlock_def callbacks_accepted_def mandatory_keys_def keyof_def
        block_params_def callback_yields_def toBlock_def)
  have "\<exists>r. invokeBlock (AcceptsBlocks [(''default'', [TArray TString], False)] :: ty completion)
            ?outer [] = Inr r"
    by (simp add: invokeBlock_def callbacks_accepted_def mandatory_keys_def keyof_def
        block_params_def)
  then obtain r where outer:
    "invokeBlock (AcceptsBlocks [(''default'', [TArray TString], False)] :: ty completion) ?outer [] = Inr r"
    by blast
  from invokeBlock_yields_union [OF outer, of ?each ?inner "[]"] inner
  have "r = [(''default'', [TString])]"
    by blast
  with outer inner show ?thesis by simp
qed


lemma params_compatible_iff:
  "params_compatible cps es \<longleftrightarrow>
     length cps \<le> length es
     \<and> (\<forall>i<length cps. \<forall>t. cps ! i = Some t \<longrightarrow> related (es ! i) t)"
proof (induction cps es rule: params_compatible.induct)
  case (1 es)
  then show ?case by simp
next
  case (2 p ps)
  then show ?case by simp
next
  case (3 ps e es)
  then show ?case by (auto simp: nth_Cons split: nat.splits)
next
  case (4 t ps e es)
  then show ?case by (auto simp: nth_Cons split: nat.splits)
qed

lemma simple_not_function: "simple t \<Longrightarrow> \<not> is_function t"
  by (cases t) simp_all

lemma related_simple:
  "simple e \<Longrightarrow> simple t \<Longrightarrow> related e t = (assignable e t \<or> assignable t e)"
  by (simp add: related_def simple_not_function)

lemma callbacks_accepted_iff:
  "callbacks_accepted bs blocks \<longleftrightarrow>
     (\<forall>b\<in>set blocks. fst b \<in> set (keyof bs)
        \<longrightarrow> params_compatible (cparams (snd b)) (block_params bs (fst b)))"
  by (auto simp: callbacks_accepted_def list_all_iff)

lemma invokeBlock_unfold:
  "invokeBlock (AcceptsBlocks bs) blocks names =
     (if \<not> set (mandatory_keys bs) \<subseteq> fst ` set blocks then Inl BlockNameMismatch
      else if \<not> callbacks_accepted bs blocks then Inl BlockParameterMismatch
      else if \<not> set names \<subseteq> set (keyof bs) then Inl BlockNameMismatch
      else Inr (concat (map (callback_yields bs) blocks)))"
proof -
  have m: "list_all (\<lambda>n. n \<in> set (map fst blocks)) (mandatory_keys bs)
             \<longleftrightarrow> set (mandatory_keys bs) \<subseteq> fst ` set blocks"
    by (auto simp: list_all_iff)
  have n: "list_all (\<lambda>n. n \<in> set (keyof bs)) names \<longleftrightarrow> set names \<subseteq> set (keyof bs)"
    by (auto simp: list_all_iff)
  show ?thesis
    unfolding invokeBlock_def completion.case m n by (rule refl)
qed




lemma too_many_not_compatible:
  "length es < length cps \<Longrightarrow> \<not> params_compatible cps es"
  by (simp add: params_compatible_iff)

lemma unrelated_not_compatible:
  assumes "i < length cps" and "i < length es" and "cps ! i = Some t"
    and "simple t" and "simple (es ! i)"
    and "\<not> assignable (es ! i) t" and "\<not> assignable t (es ! i)"
  shows "\<not> params_compatible cps es"
proof
  assume "params_compatible cps es"
  with assms(1,3) have "related (es ! i) t"
    by (simp add: params_compatible_iff)
  with assms(4,5) have "assignable (es ! i) t \<or> assignable t (es ! i)"
    by (simp add: related_simple)
  with assms(6,7) show False by simp
qed

lemma fits_compatible:
  assumes "length cps \<le> length es"
    and "\<forall>i<length cps. \<forall>t. cps ! i = Some t \<longrightarrow>
           simple t \<and> simple (es ! i) \<and> (assignable (es ! i) t \<or> assignable t (es ! i))"
  shows "params_compatible cps es"
  unfolding params_compatible_iff
proof (intro conjI allI impI)
  show "length cps \<le> length es" by (rule assms(1))
next
  fix i t
  assume "i < length cps" and "cps ! i = Some t"
  with assms(2) have "simple t \<and> simple (es ! i) \<and> (assignable (es ! i) t \<or> assignable t (es ! i))"
    by blast
  then show "related (es ! i) t"
    by (simp add: related_simple)
qed

text \<open>
  C4, as the code has it. The blocks of a block set are declared as methods, and the host
  language compares method parameters in both directions. For parameter types built from
  the primitives, \<^verbatim>\<open>unknown\<close> and \<^verbatim>\<open>never\<close> by arrays and unions:
  \<^item> an invocation in which a supplied callback declares more parameters than its block
    passes, or annotates a parameter with a type that is neither assignable to nor from
    the type the block passes, is rejected; the failure is \<open>BlockParameterMismatch\<close>
    when no mandatory block is missing;
  \<^item> an invocation in which every supplied callback declares no more parameters than
    its block passes, and annotates them only with types that are wider or narrower than
    the types passed (or not at all), is accepted when its block names are.
\<close>

theorem block_parameters_compared_both_ways:
  fixes bs :: block_set and blocks :: "(string \<times> callback) list" and names :: "string list"
  defines "res \<equiv> invokeBlock (AcceptsBlocks bs :: 'v completion) blocks names"
      and "declared b \<equiv> cparams (snd b)"
      and "passed b \<equiv> block_params bs (fst b)"
  shows "((\<exists>b\<in>set blocks. fst b \<in> set (keyof bs)
             \<and> (length (passed b) < length (declared b)
                \<or> (\<exists>i t. i < length (declared b) \<and> i < length (passed b)
                      \<and> declared b ! i = Some t \<and> simple t \<and> simple (passed b ! i)
                      \<and> \<not> assignable (passed b ! i) t \<and> \<not> assignable t (passed b ! i))))
          \<longrightarrow> (\<exists>e. res = Inl e)
              \<and> (set (mandatory_keys bs) \<subseteq> fst ` set blocks \<longrightarrow> res = Inl BlockParameterMismatch))
    \<and> (set (mandatory_keys bs) \<subseteq> fst ` set blocks \<and> set names \<subseteq> set (keyof bs)
        \<and> (\<forall>b\<in>set blocks. fst b \<in> set (keyof bs) \<longrightarrow>
              length (declared b) \<le> length (passed b)
              \<and> (\<forall>i<length (declared b). \<forall>t. declared b ! i = Some t \<longrightarrow>
                    simple t \<and> simple (passed b ! i)
                    \<and> (assignable (passed b ! i) t \<or> assignable t (passed b ! i))))
          \<longrightarrow> res = Inr (concat (map (callback_yields bs) blocks)))"
proof (intro conjI impI)
  assume bad: "\<exists>b\<in>set blocks. fst b \<in> set (keyof bs)
             \<and> (length (passed b) < length (declared b)
                \<or> (\<exists>i t. i < length (declared b) \<and> i < length (passed b)
                      \<and> declared b ! i = Some t \<and> simple t \<and> simple (passed b ! i)
                      \<and> \<not> assignable (passed b ! i) t \<and> \<not> assignable t (passed b ! i)))"
  then obtain b where b: "b \<in> set blocks" "fst b \<in> set (keyof bs)"
    and cases: "length (passed b) < length (declared b)
                \<or> (\<exists>i t. i < length (declared b) \<and> i < length (passed b)
                      \<and> declared b ! i = Some t \<and> simple t \<and> simple (passed b ! i)
                      \<and> \<not> assignable (passed b ! i) t \<and> \<not> assignable t (passed b ! i))"
    by blast
  from cases have "\<not> params_compatible (declared b) (passed b)"
  proof
    assume "length (passed b) < length (declared b)"
    then show ?thesis by (rule too_many_not_compatible)
  next
    assume "\<exists>i t. i < length (declared b) \<and> i < length (passed b)
                      \<and> declared b ! i = Some t \<and> simple t \<and> simple (passed b ! i)
                      \<and> \<not> assignable (passed b ! i) t \<and> \<not> assignable t (passed b ! i)"
    then obtain i t where "i < length (declared b)" "i < length (passed b)"
      "declared b ! i = Some t" "simple t" "simple (passed b ! i)"
      "\<not> assignable (passed b ! i) t" "\<not> assignable t (passed b ! i)"
      by blast
    then show ?thesis by (rule unrelated_not_compatible)
  qed
  with b have refused: "\<not> callbacks_accepted bs blocks"
    unfolding callbacks_accepted_iff declared_def passed_def by blast
  show "\<exists>e. res = Inl e"
    unfolding res_def invokeBlock_unfold using refused by simp
  show "res = Inl BlockParameterMismatch" if "set (mandatory_keys bs) \<subseteq> fst ` set blocks"
    unfolding res_def invokeBlock_unfold using refused that by simp
next
  assume good: "set (mandatory_keys bs) \<subseteq> fst ` set blocks \<and> set names \<subseteq> set (keyof bs)
        \<and> (\<forall>b\<in>set blocks. fst b \<in> set (keyof bs) \<longrightarrow>
              length (declared b) \<le> length (passed b)
              \<and> (\<forall>i<length (declared b). \<forall>t. declared b ! i = Some t \<longrightarrow>
                    simple t \<and> simple (passed b ! i)
                    \<and> (assignable (passed b ! i) t \<or> assignable t (passed b ! i))))"
  have "params_compatible (declared b) (passed b)"
    if "b \<in> set blocks" and "fst b \<in> set (keyof bs)" for b
  proof (rule fits_compatible)
    from good that show "length (declared b) \<le> length (passed b)"
      by blast
    from good that show "\<forall>i<length (declared b). \<forall>t. declared b ! i = Some t \<longrightarrow>
                    simple t \<and> simple (passed b ! i)
                    \<and> (assignable (passed b ! i) t \<or> assignable t (passed b ! i))"
      by blast
  qed
  then have accepted: "callbacks_accepted bs blocks"
    unfolding callbacks_accepted_iff declared_def passed_def by blast
  from good have "set (mandatory_keys bs) \<subseteq> fst ` set blocks" and "set names \<subseteq> set (keyof bs)"
    by blast+
  with accepted show "res = Inr (concat (map (callback_yields bs) blocks))"
    unfolding res_def invokeBlock_unfold by simp
qed

text \<open>
  \<^verbatim>\<open>each\<close> over an array of \<^verbatim>\<open>string | number\<close>: a callback whose first parameter
  is annotated \<^verbatim>\<open>boolean\<close> is rejected, also when a name is listed that the block set
  does not have; callbacks annotated with the narrower \<^verbatim>\<open>string\<close> and with the wider
  \<^verbatim>\<open>unknown\<close> are accepted.
\<close>

theorem block_parameters_compared_both_ways_witness:
  "invokeBlock (AcceptsBlocks [(''default'', [TUnion TString TNumber, TNumber], False),
                               (''inverse'', [], True)] :: ty completion)
     [(''default'', Callback [Some TBoolean] no_yields)] [''extra'']
     = Inl BlockParameterMismatch
   \<and> invokeBlock (AcceptsBlocks [(''default'', [TUnion TString TNumber, TNumber], False),
                               (''inverse'', [], True)] :: ty completion)
     [(''default'', Callback [Some TString, Some TUnknown] no_yields)] [''default'']
     = Inr []"
proof -
  let ?bs = "[(''default'', [TUnion TString TNumber, TNumber], False), (''inverse'', [], True)]"
  let ?bad = "[(''default'', Callback [Some TBoolean] no_yields)]"
  let ?good = "[(''default'', Callback [Some TString, Some TUnknown] no_yields)]"
  have unrelated: "\<exists>b\<in>set ?bad. fst b \<in> set (keyof ?bs)
             \<and> (length (block_params ?bs (fst b)) < length (cparams (snd b))
                \<or> (\<exists>i t. i < length (cparams (snd b)) \<and> i < length (block_params ?bs (fst b))
                      \<and> cparams (snd b) ! i = Some t \<and> simple t
                      \<and> simple (block_params ?bs (fst b) ! i)
                      \<and> \<not> assignable (block_params ?bs (fst b) ! i) t
                      \<and> \<not> assignable t (block_params ?bs (fst b) ! i)))"
    by (simp add: keyof_def block_params_def)
  have m_bad: "set (mandatory_keys ?bs) \<subseteq> fst ` set ?bad"
    by (simp add: mandatory_keys_def)
  from block_parameters_compared_both_ways [where ?'v = ty, where bs = "?bs" and blocks = "?bad" and names = "[''extra'']"]
  have "(\<exists>b\<in>set ?bad. fst b \<in> set (keyof ?bs)
             \<and> (length (block_params ?bs (fst b)) < length (cparams (snd b))
                \<or> (\<exists>i t. i < length (cparams (snd b)) \<and> i < length (block_params ?bs (fst b))
                      \<and> cparams (snd b) ! i = Some t \<and> simple t
                      \<and> simple (block_params ?bs (fst b) ! i)
                      \<and> \<not> assignable (block_params ?bs (fst b) ! i) t
                      \<and> \<not> assignable t (block_params ?bs (fst b) ! i))))
          \<longrightarrow> (\<exists>e. invokeBlock (AcceptsBlocks ?bs :: ty completion) ?bad [''extra''] = Inl e)
              \<and> (set (mandatory_keys ?bs) \<subseteq> fst ` set ?bad \<longrightarrow>
                   invokeBlock (AcceptsBlocks ?bs :: ty completion) ?bad [''extra'']
                     = Inl BlockParameterMismatch)"
    by (rule conjunct1)
  from this unrelated
  have "(\<exists>e. invokeBlock (AcceptsBlocks ?bs :: ty completion) ?bad [''extra''] = Inl e)
              \<and> (set (mandatory_keys ?bs) \<subseteq> fst ` set ?bad \<longrightarrow>
                   invokeBlock (AcceptsBlocks ?bs :: ty completion) ?bad [''extra'']
                     = Inl BlockParameterMismatch)"
    by (rule mp)
  then have "set (mandatory_keys ?bs) \<subseteq> fst ` set ?bad \<longrightarrow>
                   invokeBlock (AcceptsBlocks ?bs :: ty completion) ?bad [''extra'']
                     = Inl BlockParameterMismatch"
    by (rule conjunct2)
  from this m_bad
  have rejected: "invokeBlock (AcceptsBlocks ?bs :: ty completion) ?bad [''extra'']
                     = Inl BlockParameterMismatch"
    by (rule mp)
  have fits: "set (mandatory_keys ?bs) \<subseteq> fst ` set ?good \<and> set [''default''] \<subseteq> set (keyof ?bs)
        \<and> (\<forall>b\<in>set ?good. fst b \<in> set (keyof ?bs) \<longrightarrow>
              length (cparams (snd b)) \<le> length (block_params ?bs (fst b))
              \<and> (\<forall>i<length (cparams (snd b)). \<forall>t. cparams (snd b) ! i = Some t \<longrightarrow>
                    simple t \<and> simple (block_params ?bs (fst b) ! i)
                    \<and> (assignable (block_params ?bs (fst b) ! i) t
                       \<or> assignable t (block_params ?bs (fst b) ! i))))"
    by (auto simp: mandatory_keys_def keyof_def block_params_def less_Suc_eq)
  from block_parameters_compared_both_ways [where ?'v = ty, where bs = "?bs" and blocks = "?good" and names = "[''default'']"]
  have "set (mandatory_keys ?bs) \<subseteq> fst ` set ?good \<and> set [''default''] \<subseteq> set (keyof ?bs)
        \<and> (\<forall>b\<in>set ?good. fst b \<in> set (keyof ?bs) \<longrightarrow>
              length (cparams (snd b)) \<le> length (block_params ?bs (fst b))
              \<and> (\<forall>i<length (cparams (snd b)). \<forall>t. cparams (snd b) ! i = Some t \<longrightarrow>
                    simple t \<and> simple (block_params ?bs (fst b) ! i)
                    \<and> (assignable (block_params ?bs (fst b) ! i) t
                       \<or> assignable t (block_params ?bs (fst b) ! i))))
        \<longrightarrow> invokeBlock (AcceptsBlocks ?bs :: ty completion) ?good [''default'']
              = Inr (concat (map (callback_yields ?bs) ?good))"
    by (rule conjunct2)
  from this fits
  have "invokeBlock (AcceptsBlocks ?bs :: ty completion) ?good [''default'']
              = Inr (concat (map (callback_yields ?bs) ?good))"
    by (rule mp)
  then have accepted: "invokeBlock (AcceptsBlocks ?bs :: ty completion) ?good [''default''] = Inr []"
    by (simp add: callback_yields_def no_yields_def)
  from rejected accepted show ?thesis
    by (rule conjI)
qed

text \<open>
  \<^verbatim>\<open>each\<close> over an array of \<^verbatim>\<open>string | number\<close> passes a \<^verbatim>\<open>string | number\<close>
  to its \<open>default\<close> block. A callback that annotates its parameter with the narrower
  \<^verbatim>\<open>string\<close> is accepted.
\<close>

theorem narrower_parameter_counterexample:
  "EachHelper [] [TArray (TUnion TString TNumber)]
     = Inr (AcceptsBlocks [(''default'', [TUnion TString TNumber, TNumber], False),
                           (''inverse'', [], True)])
   \<and> assignable TString (TUnion TString TNumber)
   \<and> \<not> assignable (TUnion TString TNumber) TString
   \<and> invokeBlock (AcceptsBlocks [(''default'', [TUnion TString TNumber, TNumber], False),
                                 (''inverse'', [], True)] :: ty completion)
       [(''default'', Callback [Some TString] no_yields)] [''default''] = Inr []"
  by (simp add: EachHelper_def Invokable_def check_args_def required_keys_def
      invokeBlock_def callbacks_accepted_def related_def mandatory_keys_def keyof_def
      block_params_def callback_yields_def no_yields_def)

section \<open>Properties of the built-in primitives\<close>

lemma Omit_Partial_Pick_keys:
  "set (map fst (Omit shape ks @ Partial (Pick shape ks))) = set (map fst shape)"
  by (force simp: Omit_def Pick_def Partial_def)

lemma subst_closed: "closed t \<Longrightarrow> subst \<theta> t = t"
  by (induction t) (simp_all add: list_all_iff map_idI)

lemma erase_ty_closed: "closed t \<Longrightarrow> erase_ty bounds t = t"
  by (simp add: erase_ty_def subst_closed)

text \<open>
  C5, as the code has it. For a component without positional parameters, the signature
  that \<^verbatim>\<open>component\<close> returns keeps every named argument of the component: its shape is
  \<^verbatim>\<open>Omit<ArgsFor<C>, G> & Partial<Pick<ArgsFor<C>, G>>\<close>. The arguments that were not
  pre-bound are unchanged, with their type and with their being required or optional; the
  pre-bound ones stay accepted with their type and are optional. (A type parameter of the
  component that occurs in the type of an argument is replaced by its bound.)
\<close>

theorem ComponentHelper_named_args:
  assumes "ComponentHelper args c = Inr (ReturnsValue s)"
    and "positionalArgs c = []"
  shows "namedArgs s = Omit (ArgsFor c) (map fst args) @ Partial (Pick (ArgsFor c) (map fst args))
    \<and> map fst (ArgsFor c) = map fst (namedArgs c)
    \<and> map (\<lambda>e. snd (snd e)) (ArgsFor c) = map (\<lambda>e. snd (snd e)) (namedArgs c)
    \<and> set (map fst (namedArgs s)) = set (map fst (namedArgs c))
    \<and> (\<forall>e\<in>set (namedArgs c). fst e \<notin> fst ` set args \<longrightarrow>
          (fst e, erase_ty (typeParameters c) (fst (snd e)), snd (snd e)) \<in> set (namedArgs s))
    \<and> (\<forall>e\<in>set (namedArgs c). fst e \<notin> fst ` set args \<and> closed (fst (snd e)) \<longrightarrow>
          e \<in> set (namedArgs s))
    \<and> (\<forall>e\<in>set (namedArgs c). fst e \<in> fst ` set args \<longrightarrow>
          (fst e, erase_ty (typeParameters c) (fst (snd e)), True) \<in> set (namedArgs s))
    \<and> (\<forall>e\<in>set (namedArgs s). fst e \<in> fst ` set args \<longrightarrow> snd (snd e))
    \<and> (\<forall>e\<in>set (namedArgs s). fst e \<notin> fst ` set args \<longrightarrow> e \<in> set (ArgsFor c))"
proof -
  let ?G = "map fst args"
  let ?erased = "\<lambda>e. (fst e, erase_ty (typeParameters c) (fst (snd e)), snd (snd e))"
  from assms(1) have shape:
    "namedArgs s = Omit (ArgsFor c) ?G @ Partial (Pick (ArgsFor c) ?G)"
    by (auto simp: ComponentHelper_def Invokable_def Let_def split: if_splits)
  from assms(2) have af: "ArgsFor c = map ?erased (namedArgs c)"
    by (simp add: ArgsFor_def)
  have keys_c: "map fst (ArgsFor c) = map fst (namedArgs c)"
    by (simp add: af comp_def)
  have flags_c: "map (\<lambda>e. snd (snd e)) (ArgsFor c) = map (\<lambda>e. snd (snd e)) (namedArgs c)"
    by (simp add: af comp_def)
  have keys: "set (map fst (namedArgs s)) = set (map fst (namedArgs c))"
    unfolding shape Omit_Partial_Pick_keys keys_c by (rule refl)
  have kept: "\<forall>e\<in>set (namedArgs c). fst e \<notin> fst ` set args \<longrightarrow> ?erased e \<in> set (namedArgs s)"
    unfolding shape af by (force simp: Omit_def)
  have kept_closed: "\<forall>e\<in>set (namedArgs c). fst e \<notin> fst ` set args \<and> closed (fst (snd e)) \<longrightarrow>
          e \<in> set (namedArgs s)"
  proof (intro ballI impI)
    fix e assume e: "e \<in> set (namedArgs c)"
      and "fst e \<notin> fst ` set args \<and> closed (fst (snd e))"
    then have "fst e \<notin> fst ` set args" and "closed (fst (snd e))"
      by simp_all
    from kept e \<open>fst e \<notin> fst ` set args\<close> have "?erased e \<in> set (namedArgs s)"
      by blast
    moreover from \<open>closed (fst (snd e))\<close> have "?erased e = e"
      by (simp add: erase_ty_closed)
    ultimately show "e \<in> set (namedArgs s)" by simp
  qed
  have given: "\<forall>e\<in>set (namedArgs c). fst e \<in> fst ` set args
          \<longrightarrow> (fst e, erase_ty (typeParameters c) (fst (snd e)), True) \<in> set (namedArgs s)"
    unfolding shape af by (force simp: Pick_def Partial_def)
  have optional: "\<forall>e\<in>set (namedArgs s). fst e \<in> fst ` set args \<longrightarrow> snd (snd e)"
    unfolding shape by (force simp: Omit_def Pick_def Partial_def)
  have unchanged: "\<forall>e\<in>set (namedArgs s). fst e \<notin> fst ` set args \<longrightarrow> e \<in> set (ArgsFor c)"
    unfolding shape by (force simp: Omit_def Pick_def Partial_def)
  show ?thesis
    apply (rule conjI)
     apply (rule shape)
    apply (rule conjI)
     apply (rule keys_c)
    apply (rule conjI)
     apply (rule flags_c)
    apply (rule conjI)
     apply (rule keys)
    apply (rule conjI)
     apply (rule kept)
    apply (rule conjI)
     apply (rule kept_closed)
    apply (rule conjI)
     apply (rule given)
    apply (rule conjI)
     apply (rule optional)
    apply (rule unchanged)
    done
qed

text \<open>
  A component \<^verbatim>\<open><T extends string>(args: { a: T, b: number, c?: boolean }) =>
  AcceptsBlocks<{ default?(x: T): BlockResult }>\<close> with \<open>a\<close> pre-bound.
\<close>

theorem ComponentHelper_named_args_witness:
  "ComponentHelper [(''a'', TString)]
     \<lparr> typeParameters = [TString],
       namedArgs = [(''a'', TVar 0, False), (''b'', TNumber, False), (''c'', TBoolean, True)],
       positionalArgs = [],
       completionKind = AcceptsBlocks [(''default'', [TVar 0], True)] \<rparr>
   = Inr (ReturnsValue
       \<lparr> typeParameters = [],
         namedArgs = [(''b'', TNumber, False), (''c'', TBoolean, True), (''a'', TString, True)],
         positionalArgs = [],
         completionKind = AcceptsBlocks [(''default'', [TString], True)] \<rparr>)
   \<and> set (map fst [(''b'', TNumber, False), (''c'', TBoolean, True), (''a'', TString, True)])
     = set (map fst [(''a'', TVar 0, False), (''b'', TNumber, False), (''c'', TBoolean, True)])"
proof -
  let ?c = "\<lparr> typeParameters = [TString],
       namedArgs = [(''a'', TVar 0, False), (''b'', TNumber, False), (''c'', TBoolean, True)],
       positionalArgs = [],
       completionKind = AcceptsBlocks [(''default'', [TVar 0], True)] \<rparr> :: ty signature"
  let ?s = "\<lparr> typeParameters = [],
         namedArgs = [(''b'', TNumber, False), (''c'', TBoolean, True), (''a'', TString, True)],
         positionalArgs = [],
         completionKind = AcceptsBlocks [(''default'', [TString], True)] \<rparr> :: ty signature"
  have af: "ArgsFor ?c = [(''a'', TString, False), (''b'', TNumber, False), (''c'', TBoolean, True)]"
    by (simp add: ArgsFor_def erase_ty_def bound_of_def)
  have pf: "PositionalFor ?c = []"
    by (simp add: PositionalFor_def)
  have bf: "BlocksFor ?c = [(''default'', [TString], True)]"
    by (simp add: BlocksFor_def erase_block_def erase_ty_def bound_of_def)
  have call: "ComponentHelper [(''a'', TString)] ?c = Inr (ReturnsValue ?s)"
    unfolding ComponentHelper_def Invokable_def Let_def af pf bf
    by (simp add: arg_type_def Omit_def Pick_def Partial_def)
  have positional: "positionalArgs ?c = []"
    by simp
  from ComponentHelper_named_args [OF call positional]
  have "set (map fst (namedArgs ?s)) = set (map fst (namedArgs ?c))"
    by (elim conjE)
  then have "set (map fst [(''b'', TNumber, False), (''c'', TBoolean, True), (''a'', TString, True)])
     = set (map fst [(''a'', TVar 0, False), (''b'', TNumber, False), (''c'', TBoolean, True)])"
    by simp
  with call show ?thesis by (rule conjI)
qed

text \<open>
  Pre-binding \<open>a\<close> on a component with the required arguments \<open>a\<close> and \<open>b\<close>: the
  result still has the key \<open>a\<close>, now optional, and \<open>b\<close> is still required. The keys
  are not those of a set difference, and the remainder has not become optional.
\<close>

theorem component_args_counterexample:
  "ComponentHelper [(''a'', TString)]
     \<lparr> typeParameters = [],
       namedArgs = [(''a'', TString, False), (''b'', TNumber, False)],
       positionalArgs = [],
       completionKind = AcceptsBlocks [] \<rparr>
   = Inr (ReturnsValue
       \<lparr> typeParameters = [],
         namedArgs = [(''b'', TNumber, False), (''a'', TString, True)],
         positionalArgs = [],
         completionKind = AcceptsBlocks [] \<rparr>)"
proof -
  let ?c = "\<lparr> typeParameters = [],
       namedArgs = [(''a'', TString, False), (''b'', TNumber, False)],
       positionalArgs = [],
       completionKind = AcceptsBlocks [] \<rparr> :: ty signature"
  have af: "ArgsFor ?c = [(''a'', TString, False), (''b'', TNumber, False)]"
    by (simp add: ArgsFor_def erase_ty_def)
  have pf: "PositionalFor ?c = []"
    by (simp add: PositionalFor_def)
  have bf: "BlocksFor ?c = []"
    by (simp add: BlocksFor_def)
  show ?thesis
    unfolding ComponentHelper_def Invokable_def Let_def af pf bf
    by (simp add: arg_type_def Omit_def Pick_def Partial_def)
qed










lemma param_types_unannotated: "param_types (replicate (length es) None) es = es"
  by (induction es) simp_all

lemma params_compatible_unannotated: "params_compatible (replicate (length es) None) es"
  by (induction es) simp_all

text \<open>
  C7. Binding \<^verbatim>\<open>each\<close> with items of type \<open>T[]\<close> fixes the type parameter: the
  \<open>default\<close> block passes a \<open>T\<close> and a \<^verbatim>\<open>number\<close>, which are the types of the two
  parameters of a callback \<^verbatim>\<open>*default(item, index)\<close>. With a body
  \<^verbatim>\<open>yield toBlock('out', item)\<close> the invocation yields \<open>item\<close> to the block
  \<open>out\<close>, and a template with this body accepts an optional block \<open>out\<close> with one
  parameter of type \<open>T\<close>. For \<open>T\<close> = \<^verbatim>\<open>string\<close>:
  \<^verbatim>\<open>AcceptsBlocks<{ out?(item: string): BlockResult }>\<close>.
\<close>

theorem each_end_to_end:
  fixes T :: ty
  defines "bound \<equiv> (AcceptsBlocks [(''default'', [T, TNumber], False), (''inverse'', [], True)]
                      :: ty completion)"
  shows "EachHelper [] [TArray T] = Inr bound
    \<and> param_types [None, None]
         (block_params [(''default'', [T, TNumber], False), (''inverse'', [], True)] ''default'')
       = [T, TNumber]
    \<and> invokeBlock bound [(''default'', Callback [None, None] yields_out_item)] []
       = Inr [(''out'', [T])]
    \<and> template (yield_from
         (invokeBlock bound [(''default'', Callback [None, None] yields_out_item)] []))
       = AcceptsBlocks [(''out'', [T], True)]"
proof -
  have bind: "EachHelper [] [TArray T] = Inr bound"
    by (simp add: bound_def EachHelper_def Invokable_def check_args_def required_keys_def)
  have params: "param_types [None, None]
         (block_params [(''default'', [T, TNumber], False), (''inverse'', [], True)] ''default'')
       = [T, TNumber]"
    by (simp add: block_params_def)
  have invoke: "invokeBlock bound [(''default'', Callback [None, None] yields_out_item)] []
       = Inr [(''out'', [T])]"
    by (simp add: bound_def invokeBlock_def callbacks_accepted_def mandatory_keys_def keyof_def
        block_params_def callback_yields_def yields_out_item_def toBlock_def)
  have contract: "template (yield_from
         (invokeBlock bound [(''default'', Callback [None, None] yields_out_item)] []))
       = AcceptsBlocks [(''out'', [T], True)]"
    unfolding invoke by (simp add: template_def yield_from_def blocks_hash_def)
  show ?thesis
    apply (rule conjI)
     apply (rule bind)
    apply (rule conjI)
     apply (rule params)
    apply (rule conjI)
     apply (rule invoke)
    apply (rule contract)
    done
qed

theorem each_end_to_end_witness:
  "EachHelper [] [TArray TString]
     = Inr (AcceptsBlocks [(''default'', [TString, TNumber], False), (''inverse'', [], True)])
   \<and> template (yield_from
         (invokeBlock (AcceptsBlocks [(''default'', [TString, TNumber], False), (''inverse'', [], True)]
                       :: ty completion)
            [(''default'', Callback [None, None] yields_out_item)] []))
       = AcceptsBlocks [(''out'', [TString], True)]"
  using each_end_to_end [of TString] by (elim conjE) (rule conjI)

section \<open>Properties of resolution and of the wrapper\<close>

text \<open>
  C8. \<open>resolveOrReturn\<close> is total. On an entity that carries no template signature it
  gives the signature without type parameters and without arguments that returns a value
  of the type of the entity; on an entity that carries one, it gives exactly the signature
  that \<open>resolve\<close> gives.
\<close>

theorem resolveOrReturn_never_fails:
  "(template_signature e = None \<longrightarrow>
      resolve e = Inl NoSignature
      \<and> resolveOrReturn e = \<lparr> typeParameters = [], namedArgs = [], positionalArgs = [],
                              completionKind = ReturnsValue (typeof e) \<rparr>)
   \<and> (\<forall>s. resolve e = Inr s \<longrightarrow> resolveOrReturn e = s)
   \<and> (template_signature e \<noteq> None \<longrightarrow> resolve e = Inr (resolveOrReturn e))"
  by (cases "template_signature e") (simp_all add: resolve_def resolveOrReturn_def)

theorem resolveOrReturn_never_fails_witness:
  "resolveOrReturn \<lparr> typeof = TString, template_signature = None \<rparr>
     = \<lparr> typeParameters = [], namedArgs = [], positionalArgs = [],
         completionKind = ReturnsValue TString \<rparr>
   \<and> resolve \<lparr> typeof = TFun [] [] TVoid,
               template_signature = Some \<lparr> typeParameters = [], namedArgs = [],
                 positionalArgs = [TString], completionKind = CreatesModifier \<rparr> \<rparr>
     = Inr (resolveOrReturn \<lparr> typeof = TFun [] [] TVoid,
               template_signature = Some \<lparr> typeParameters = [], namedArgs = [],
                 positionalArgs = [TString], completionKind = CreatesModifier \<rparr> \<rparr>)"
proof -
  let ?plain = "\<lparr> typeof = TString, template_signature = None \<rparr>"
  let ?modifier = "\<lparr> typeof = TFun [] [] TVoid,
               template_signature = Some \<lparr> typeParameters = [], namedArgs = [],
                 positionalArgs = [TString], completionKind = CreatesModifier \<rparr> \<rparr>"
  have none: "template_signature ?plain = None"
    by simp
  have some: "template_signature ?modifier \<noteq> None"
    by simp
  from resolveOrReturn_never_fails [of ?plain]
  have "template_signature ?plain = None \<longrightarrow>
      resolve ?plain = Inl NoSignature
      \<and> resolveOrReturn ?plain = \<lparr> typeParameters = [], namedArgs = [], positionalArgs = [],
                              completionKind = ReturnsValue (typeof ?plain) \<rparr>"
    by (rule conjunct1)
  from this none have "resolve ?plain = Inl NoSignature
      \<and> resolveOrReturn ?plain = \<lparr> typeParameters = [], namedArgs = [], positionalArgs = [],
                              completionKind = ReturnsValue (typeof ?plain) \<rparr>"
    by (rule mp)
  then have first: "resolveOrReturn ?plain = \<lparr> typeParameters = [], namedArgs = [],
      positionalArgs = [], completionKind = ReturnsValue TString \<rparr>"
    by simp
  from resolveOrReturn_never_fails [of ?modifier]
  have "template_signature ?modifier \<noteq> None \<longrightarrow> resolve ?modifier = Inr (resolveOrReturn ?modifier)"
    by (elim conjE)
  from this some have second: "resolve ?modifier = Inr (resolveOrReturn ?modifier)"
    by (rule mp)
  from first second show ?thesis
    by (rule conjI)
qed

text \<open>
  C9. \<open>Invokable\<close> is the identity: wrapping a signature changes nothing, and the wrapped
  signature is called as the signature itself is.
\<close>

theorem Invokable_is_identity:
  "Invokable T = T \<and> Invokable sig args positional = sig args positional"
  by (simp add: Invokable_def)

text \<open>
  C10. Binding \<^verbatim>\<open>let\<close> with positional values of types \<open>values\<close> gives a block set
  whose only block, \<open>default\<close>, is mandatory and passes exactly these types in the same
  order: a callback with one parameter for each value receives them, and the invocation
  yields what the body yields for them.
\<close>

theorem LetHelper_default_block:
  "LetHelper [] values = Inr (AcceptsBlocks [(''default'', values, False)])
   \<and> block_params [(''default'', values, False)] ''default'' = values
   \<and> param_types (replicate (length values) None)
        (block_params [(''default'', values, False)] ''default'') = values
   \<and> invokeBlock (AcceptsBlocks [(''default'', values, False)] :: ty completion)
        [(''default'', Callback (replicate (length values) None) body)] []
      = Inr (body values)"
proof -
  have bind: "LetHelper [] values = Inr (AcceptsBlocks [(''default'', values, False)])"
    by (simp add: LetHelper_def Invokable_def)
  have block: "block_params [(''default'', values, False)] ''default'' = values"
    by (simp add: block_params_def)
  have params: "param_types (replicate (length values) None)
        (block_params [(''default'', values, False)] ''default'') = values"
    unfolding block by (rule param_types_unannotated)
  have invoke: "invokeBlock (AcceptsBlocks [(''default'', values, False)] :: ty completion)
        [(''default'', Callback (replicate (length values) None) body)] []
      = Inr (body values)"
    using params_compatible_unannotated [of "values"] param_types_unannotated [of "values"]
    by (simp add: invokeBlock_def callbacks_accepted_def mandatory_keys_def keyof_def block
        callback_yields_def)
  show ?thesis
    apply (rule conjI)
     apply (rule bind)
    apply (rule conjI)
     apply (rule block)
    apply (rule conjI)
     apply (rule params)
    apply (rule invoke)
    done
qed

text \<open>
  The type test of the repository: \<^verbatim>\<open>lett({}, 'hello', 123)\<close> with a callback
  \<^verbatim>\<open>*default(str, num) { yield toBlock('body', num, str) }\<close> has the result type
  \<^verbatim>\<open>BlockYield<'body', [number, string]>\<close>.
\<close>

theorem LetHelper_default_block_witness:
  "LetHelper [] [TString, TNumber] = Inr (AcceptsBlocks [(''default'', [TString, TNumber], False)])
   \<and> invokeBlock (AcceptsBlocks [(''default'', [TString, TNumber], False)] :: ty completion)
        [(''default'', Callback [None, None] yields_body_num_str)] []
      = Inr [(''body'', [TNumber, TString])]"
  using LetHelper_default_block [of "[TString, TNumber]" yields_body_num_str]
  by (simp add: yields_body_num_str_def toBlock_def)



end
